theory Spec2Isabelle
  imports Main "HOL-Library.Word"
begin

section \<open>Data model\<close>

text \<open>
  A shallow embedding of \<^verbatim>\<open>backend/app/api/routes/items.py\<close> (the item routes) and
  \<^verbatim>\<open>backend/app/core/media.py\<close> (the media service). Python exceptions are values of
  a sum type (\<open>Inl\<close> the exception), the database session, the local disk and the
  supply of fresh uuids are an explicit state that every effectful function takes and
  returns, and the libraries the code calls (libmagic, the Cloudinary client, the file
  system, pathlib, uuid4) are parameters collected in one record.
\<close>

type_synonym uuid = nat

type_synonym byte = "8 word"

text \<open>\<^verbatim>\<open>fastapi.HTTPException(status_code=..., detail=...)\<close>.\<close>

datatype HTTPException = HTTPException (status_code: int) (detail: string)

text \<open>The current user, as far as the routes read it: \<^verbatim>\<open>id\<close> and \<^verbatim>\<open>is_superuser\<close>.\<close>

record User =
  id_User :: uuid
  is_superuser :: bool

text \<open>
  Modelled from the spec: the table model \<^verbatim>\<open>Item\<close> of \<^verbatim>\<open>app.models\<close>, which is not
  among the sources. The spec's data model gives identity, owner, title, description,
  media type and the two optional URLs; the routes assign the strings \<^verbatim>\<open>"image"\<close> and
  \<^verbatim>\<open>"video"\<close> to \<^verbatim>\<open>media_type\<close>, so it is an optional string here.
\<close>

record Item =
  id_Item :: uuid
  owner_id :: uuid
  title :: string
  description :: "string option"
  media_type :: "string option"
  image_url :: "string option"
  video_url :: "string option"

text \<open>\<^verbatim>\<open>ItemsPublic(data=items, count=count)\<close>.\<close>

record ItemsPublic =
  data :: "Item list"
  count :: int

text \<open>
  The file object behind an upload (\<^verbatim>\<open>file.file\<close>): its bytes and the read position.
\<close>

record SpooledFile =
  content :: "byte list"
  pos :: nat

text \<open>
  \<^verbatim>\<open>fastapi.UploadFile\<close>: the client-supplied name and content type, the declared size
  (\<^verbatim>\<open>int | None\<close>) and the file object.
\<close>

record UploadFile =
  filename :: "string option"
  content_type :: "string option"
  size_file :: "int option"
  file_obj :: SpooledFile

text \<open>The dictionary both upload back ends return; a \<^verbatim>\<open>None\<close> value is \<open>None\<close>.\<close>

record upload_result =
  url :: "string option"
  public_id :: "string option"
  resource_type :: "string option"
  format :: "string option"
  width :: "int option"
  height :: "int option"
  bytes :: "int option"

text \<open>
  The dictionary the Cloudinary client returns, read only through \<^verbatim>\<open>.get(key)\<close>: its
  string-valued and its integer-valued entries, a missing key giving \<open>None\<close>.
\<close>

record cloudinary_response =
  strs :: "string \<rightharpoonup> string"
  ints :: "string \<rightharpoonup> int"

text \<open>
  The external collaborators. A call that can raise returns the exception's text
  (\<^verbatim>\<open>str(e)\<close>): as \<open>Inl\<close> when it returns a value otherwise, as \<open>Some\<close> next to the
  disk it leaves behind when it only has an effect.
\<close>

record 'fs collaborators =
  magic_from_buffer :: "byte list \<Rightarrow> string"
  cloudinary_upload :: "SpooledFile \<Rightarrow> string \<Rightarrow> string + cloudinary_response"
  cloudinary_destroy :: "string \<Rightarrow> string + cloudinary_response"
  mkdir :: "string \<Rightarrow> 'fs \<Rightarrow> string option \<times> 'fs"
  write_file :: "string \<Rightarrow> byte list \<Rightarrow> 'fs \<Rightarrow> string option \<times> 'fs"
  path_exists :: "string \<Rightarrow> 'fs \<Rightarrow> string + bool"
  unlink :: "string \<Rightarrow> 'fs \<Rightarrow> string option \<times> 'fs"
  path_suffix :: "string \<Rightarrow> string"
  uuid4 :: "nat \<Rightarrow> string"

text \<open>
  The state a request runs in: the rows of the item table in storage order, the local
  disk, and the number of uuids drawn so far.
\<close>

record 'fs world =
  table :: "Item list"
  disk :: 'fs
  uuids :: nat

text \<open>
  \<^verbatim>\<open>MediaService\<close> after \<^verbatim>\<open>__init__\<close>: the back end chosen from the settings, and the
  upload directory of the local back end.
\<close>

record MediaService =
  use_cloudinary :: bool
  upload_dir :: string

section \<open>Python primitives\<close>

text \<open>Truthiness of an optional string and of an optional integer.\<close>

definition truthy_str :: "string option \<Rightarrow> bool" where
  "truthy_str s = (case s of None \<Rightarrow> False | Some t \<Rightarrow> t \<noteq> [])"

definition truthy_int :: "int option \<Rightarrow> bool" where
  "truthy_int n = (case n of None \<Rightarrow> False | Some k \<Rightarrow> k \<noteq> 0)"

text \<open>\<^verbatim>\<open>str(n)\<close> for an integer, as the f-string of the size error formats it.\<close>

fun str_nat :: "nat \<Rightarrow> string" where
  "str_nat n =
     (if n < 10 then [''0123456789'' ! n]
      else str_nat (n div 10) @ [''0123456789'' ! (n mod 10)])"

definition str_int :: "int \<Rightarrow> string" where
  "str_int i = (if i < 0 then CHR ''-'' # str_nat (nat (- i)) else str_nat (nat i))"

text \<open>\<^verbatim>\<open>sep.join(xs)\<close>.\<close>

fun join :: "string \<Rightarrow> string list \<Rightarrow> string" where
  "join sep [] = []"
| "join sep [x] = x"
| "join sep (x # y # ys) = x @ sep @ join sep (y # ys)"

text \<open>\<^verbatim>\<open>s.startswith(p)\<close>, \<^verbatim>\<open>sub in s\<close> and \<^verbatim>\<open>s.lstrip(".")\<close>.\<close>

definition startswith :: "string \<Rightarrow> string \<Rightarrow> bool" where
  "startswith s p = (take (length p) s = p)"

fun contains :: "string \<Rightarrow> string \<Rightarrow> bool" where
  "contains sub [] = (sub = [])"
| "contains sub (c # cs) = (startswith (c # cs) sub \<or> contains sub cs)"

definition lstrip_dot :: "string \<Rightarrow> string" where
  "lstrip_dot s = dropWhile (\<lambda>c. c = CHR ''.'') s"

text \<open>
  \<^verbatim>\<open>Path(a) / b\<close> followed by \<^verbatim>\<open>str\<close>, for the relative, already normal segments the
  service joins (an absolute right operand replaces the left one).
\<close>

definition path_join :: "string \<Rightarrow> string \<Rightarrow> string" where
  "path_join a b = (if startswith b ''/'' then b else a @ ''/'' @ b)"

text \<open>\<^verbatim>\<open>f.read(n)\<close>, \<^verbatim>\<open>f.read()\<close> and \<^verbatim>\<open>f.seek(p)\<close> on the file object.\<close>

definition read_n :: "nat \<Rightarrow> SpooledFile \<Rightarrow> byte list \<times> SpooledFile" where
  "read_n n f =
     (let chunk = take n (drop (pos f) (content f))
      in (chunk, f\<lparr>pos := pos f + length chunk\<rparr>))"

definition read_all :: "SpooledFile \<Rightarrow> byte list \<times> SpooledFile" where
  "read_all f =
     (let chunk = drop (pos f) (content f)
      in (chunk, f\<lparr>pos := pos f + length chunk\<rparr>))"

definition seek :: "nat \<Rightarrow> SpooledFile \<Rightarrow> SpooledFile" where
  "seek p f = f\<lparr>pos := p\<rparr>"

section \<open>The media service\<close>

definition allowed_image_types :: "string list" where
  "allowed_image_types = [''image/jpeg'', ''image/png'', ''image/gif'', ''image/webp'']"

definition allowed_video_types :: "string list" where
  "allowed_video_types = [''video/mp4'', ''video/webm'', ''video/ogg'', ''video/quicktime'']"

text \<open>The two exceptions of validation, with the texts their f-strings build.\<close>

definition file_too_large :: "int \<Rightarrow> HTTPException" where
  "file_too_large max_size_mb =
     HTTPException 413 (''File too large. Maximum size is '' @ str_int max_size_mb @ ''MB'')"

definition unsupported_file_type :: "string \<Rightarrow> HTTPException" where
  "unsupported_file_type mime_type =
     HTTPException 400
       (''Unsupported file type: '' @ mime_type @ ''. Allowed: '' @
        join '', '' (allowed_image_types @ allowed_video_types))"

text \<open>
  \<^verbatim>\<open>MediaService._validate_file(file, max_size_mb=10)\<close>. It raises 413 when the declared
  size is truthy and above the limit, then sniffs the MIME type of the first 2048 bytes
  read from the current position, rewinds, and raises 400 when the type is not allowed.
  On success the result is the file as validation leaves it (rewound).
\<close>

definition validate_file ::
  "'fs collaborators \<Rightarrow> UploadFile \<Rightarrow> int \<Rightarrow> HTTPException + UploadFile" where
  "validate_file ext f max_size_mb =
     (let max_size_bytes = max_size_mb * 1024 * 1024 in
      if truthy_int (size_file f) \<and> the (size_file f) > max_size_bytes
      then Inl (file_too_large max_size_mb)
      else
        let (chunk, f1) = read_n 2048 (file_obj f);
            f2 = seek 0 f1;
            mime_type = magic_from_buffer ext chunk
        in if mime_type \<notin> set (allowed_image_types @ allowed_video_types)
           then Inl (unsupported_file_type mime_type)
           else Inr (f\<lparr>file_obj := f2\<rparr>))"

text \<open>
  \<^verbatim>\<open>MediaService._upload_to_cloudinary\<close>: any exception of the client becomes a 500.
\<close>

definition upload_to_cloudinary ::
  "'fs collaborators \<Rightarrow> UploadFile \<Rightarrow> string \<Rightarrow> HTTPException + upload_result" where
  "upload_to_cloudinary ext f folder =
     (case cloudinary_upload ext (file_obj f) folder of
        Inl e \<Rightarrow> Inl (HTTPException 500 (''Cloudinary upload failed: '' @ e))
      | Inr result \<Rightarrow>
          Inr \<lparr>url = strs result ''secure_url'',
               public_id = strs result ''public_id'',
               resource_type = strs result ''resource_type'',
               format = strs result ''format'',
               width = ints result ''width'',
               height = ints result ''height'',
               bytes = ints result ''bytes''\<rparr>)"

text \<open>
  \<^verbatim>\<open>MediaService._upload_to_local\<close>: create the folder, draw a fresh name that keeps
  the extension, write the rest of the file, and take the resource type from the
  declared content type. Any exception becomes a 500; the disk keeps what was done
  before it.
\<close>

definition upload_to_local ::
  "MediaService \<Rightarrow> 'fs collaborators \<Rightarrow> UploadFile \<Rightarrow> string \<Rightarrow> 'fs world \<Rightarrow>
     (HTTPException + upload_result) \<times> 'fs world" where
  "upload_to_local self ext f folder w =
     (let folder_path = path_join (upload_dir self) folder in
      case mkdir ext folder_path (disk w) of
        (Some e, d1) \<Rightarrow>
          (Inl (HTTPException 500 (''Local upload failed: '' @ e)), w\<lparr>disk := d1\<rparr>)
      | (None, d1) \<Rightarrow>
          let file_extension =
                (if truthy_str (filename f) then path_suffix ext (the (filename f)) else []);
              unique_filename = uuid4 ext (uuids w) @ file_extension;
              w1 = w\<lparr>disk := d1, uuids := Suc (uuids w)\<rparr>;
              file_path = path_join folder_path unique_filename;
              (chunk, f1) = read_all (file_obj f)
          in case write_file ext file_path chunk d1 of
               (Some e, d2) \<Rightarrow>
                 (Inl (HTTPException 500 (''Local upload failed: '' @ e)), w1\<lparr>disk := d2\<rparr>)
             | (None, d2) \<Rightarrow>
                 (Inr \<lparr>url = Some (''/uploads/'' @ folder @ ''/'' @ unique_filename),
                       public_id = Some file_path,
                       resource_type =
                         Some (if truthy_str (content_type f)
                                  \<and> startswith (the (content_type f)) ''image/''
                               then ''image'' else ''video''),
                       format =
                         Some (if file_extension \<noteq> [] then lstrip_dot file_extension
                               else ''unknown''),
                       width = None,
                       height = None,
                       bytes = Some (int (length chunk))\<rparr>,
                  w1\<lparr>disk := d2\<rparr>))"

text \<open>\<^verbatim>\<open>MediaService.upload_file(file, folder="items")\<close>: validate, then upload.\<close>

definition upload_file ::
  "MediaService \<Rightarrow> 'fs collaborators \<Rightarrow> UploadFile \<Rightarrow> string \<Rightarrow> 'fs world \<Rightarrow>
     (HTTPException + upload_result) \<times> 'fs world" where
  "upload_file self ext f folder w =
     (case validate_file ext f 10 of
        Inl e \<Rightarrow> (Inl e, w)
      | Inr f' \<Rightarrow>
          if use_cloudinary self then (upload_to_cloudinary ext f' folder, w)
          else upload_to_local self ext f' folder w)"

text \<open>
  \<^verbatim>\<open>MediaService.delete_file(public_id)\<close>: every exception is caught and answered with
  \<^verbatim>\<open>False\<close>.
\<close>

definition delete_file ::
  "MediaService \<Rightarrow> 'fs collaborators \<Rightarrow> string \<Rightarrow> 'fs world \<Rightarrow> bool \<times> 'fs world" where
  "delete_file self ext pid w =
     (if use_cloudinary self then
        (case cloudinary_destroy ext pid of
           Inl e \<Rightarrow> (False, w)
         | Inr result \<Rightarrow> (strs result ''result'' = Some ''ok'', w))
      else
        (case path_exists ext pid (disk w) of
           Inl e \<Rightarrow> (False, w)
         | Inr True \<Rightarrow>
             (case unlink ext pid (disk w) of
                (Some e, d1) \<Rightarrow> (False, w\<lparr>disk := d1\<rparr>)
              | (None, d1) \<Rightarrow> (True, w\<lparr>disk := d1\<rparr>))
         | Inr False \<Rightarrow> (False, w)))"

section \<open>The database session\<close>

text \<open>
  What the routes ask of the SQLModel session. \<^verbatim>\<open>session.get(Item, id)\<close> is the row
  with that primary key, if any.
\<close>

definition session_get :: "Item list \<Rightarrow> uuid \<Rightarrow> Item option" where
  "session_get rows i = find (\<lambda>r. id_Item r = i) rows"

text \<open>
  \<^verbatim>\<open>session.add(item); session.commit()\<close> for an item loaded with primary key \<open>i\<close>:
  the row with that key is replaced by the item's current fields.
\<close>

definition session_commit :: "uuid \<Rightarrow> Item \<Rightarrow> Item list \<Rightarrow> Item list" where
  "session_commit i item rows = map (\<lambda>r. if id_Item r = i then item else r) rows"

text \<open>
  \<^verbatim>\<open>session.refresh(item)\<close> reads the item's row back; a row that is gone is an
  uncaught exception, which the framework answers with a 500.
\<close>

definition session_refresh :: "Item \<Rightarrow> Item list \<Rightarrow> HTTPException + Item" where
  "session_refresh item rows =
     (case session_get rows (id_Item item) of
        None \<Rightarrow> Inl (HTTPException 500 ''Internal Server Error'')
      | Some r \<Rightarrow> Inr r)"

text \<open>\<^verbatim>\<open>session.delete(item); session.commit()\<close>.\<close>

definition session_delete :: "Item \<Rightarrow> Item list \<Rightarrow> Item list" where
  "session_delete item rows = filter (\<lambda>r. id_Item r \<noteq> id_Item item) rows"

text \<open>
  The two shapes of statement \<^verbatim>\<open>read_items\<close> builds: a select over \<^verbatim>\<open>Item\<close> with an
  optional \<^verbatim>\<open>where(Item.owner_id == ...)\<close>, \<^verbatim>\<open>offset\<close> and \<^verbatim>\<open>limit\<close>, executed either as
  \<^verbatim>\<open>select(func.count())\<close> or as \<^verbatim>\<open>select(Item)\<close>. The database applies the filter, then
  the offset, then the limit. What a database does with a negative offset or limit is
  its own affair (PostgreSQL rejects the query); here such a value counts as 0.
\<close>

record statement =
  where_owner :: "uuid option"
  offset_rows :: "int option"
  limit_rows :: "int option"

definition select_from_Item :: statement where
  "select_from_Item = \<lparr>where_owner = None, offset_rows = None, limit_rows = None\<rparr>"

definition where_owner_id :: "uuid \<Rightarrow> statement \<Rightarrow> statement" where
  "where_owner_id u st = st\<lparr>where_owner := Some u\<rparr>"

definition offset_stmt :: "int \<Rightarrow> statement \<Rightarrow> statement" where
  "offset_stmt n st = st\<lparr>offset_rows := Some n\<rparr>"

definition limit_stmt :: "int \<Rightarrow> statement \<Rightarrow> statement" where
  "limit_stmt n st = st\<lparr>limit_rows := Some n\<rparr>"

definition exec_all :: "statement \<Rightarrow> Item list \<Rightarrow> Item list" where
  "exec_all st rows =
     (let scoped = (case where_owner st of
                      None \<Rightarrow> rows
                    | Some u \<Rightarrow> filter (\<lambda>r. owner_id r = u) rows);
          skipped = (case offset_rows st of
                       None \<Rightarrow> scoped
                     | Some n \<Rightarrow> drop (nat n) scoped)
      in case limit_rows st of
           None \<Rightarrow> skipped
         | Some n \<Rightarrow> take (nat n) skipped)"

definition exec_count :: "statement \<Rightarrow> Item list \<Rightarrow> int" where
  "exec_count st rows = int (length (exec_all st rows))"

section \<open>The item routes\<close>

text \<open>The two exceptions every per-item route raises before it does anything.\<close>

definition not_found :: HTTPException where
  "not_found = HTTPException 404 ''Item not found''"

definition not_enough_permissions :: HTTPException where
  "not_enough_permissions = HTTPException 400 ''Not enough permissions''"

text \<open>\<^verbatim>\<open>read_items(session, current_user, skip=0, limit=100)\<close>.\<close>

definition read_items :: "User \<Rightarrow> int \<Rightarrow> int \<Rightarrow> 'fs world \<Rightarrow> ItemsPublic" where
  "read_items current_user skip lim w =
     (if is_superuser current_user then
        let count_statement = select_from_Item;
            cnt = exec_count count_statement (table w);
            stmt = limit_stmt lim (offset_stmt skip select_from_Item);
            items = exec_all stmt (table w)
        in \<lparr>data = items, count = cnt\<rparr>
      else
        let count_statement = where_owner_id (id_User current_user) select_from_Item;
            cnt = exec_count count_statement (table w);
            stmt = limit_stmt lim (offset_stmt skip
                     (where_owner_id (id_User current_user) select_from_Item));
            items = exec_all stmt (table w)
        in \<lparr>data = items, count = cnt\<rparr>)"

text \<open>\<^verbatim>\<open>read_item(session, current_user, id)\<close>.\<close>

definition read_item :: "User \<Rightarrow> uuid \<Rightarrow> 'fs world \<Rightarrow> HTTPException + Item" where
  "read_item current_user i w =
     (case session_get (table w) i of
        None \<Rightarrow> Inl not_found
      | Some item \<Rightarrow>
          if \<not> is_superuser current_user \<and> owner_id item \<noteq> id_User current_user
          then Inl not_enough_permissions
          else Inr item)"

text \<open>
  \<^verbatim>\<open>upload_media(file, media_service)\<close>: the route has no session and no current user
  among its parameters.
\<close>

definition upload_media ::
  "MediaService \<Rightarrow> 'fs collaborators \<Rightarrow> UploadFile \<Rightarrow> 'fs world \<Rightarrow>
     (HTTPException + upload_result) \<times> 'fs world" where
  "upload_media media_service ext f w = upload_file media_service ext f ''items'' w"

text \<open>
  \<^verbatim>\<open>add_media_to_item(session, current_user, id, file, media_service)\<close>: look the item
  up, check the requester, upload, copy the URL into the field of the result's
  resource type, commit and read the row back.
\<close>

definition add_media_to_item ::
  "MediaService \<Rightarrow> 'fs collaborators \<Rightarrow> User \<Rightarrow> uuid \<Rightarrow> UploadFile \<Rightarrow> 'fs world \<Rightarrow>
     (HTTPException + Item) \<times> 'fs world" where
  "add_media_to_item media_service ext current_user i f w =
     (case session_get (table w) i of
        None \<Rightarrow> (Inl not_found, w)
      | Some item \<Rightarrow>
          if \<not> is_superuser current_user \<and> owner_id item \<noteq> id_User current_user
          then (Inl not_enough_permissions, w)
          else
            (case upload_file media_service ext f ''items'' w of
               (Inl e, w1) \<Rightarrow> (Inl e, w1)
             | (Inr upload_result, w1) \<Rightarrow>
                 let item1 =
                       (if resource_type upload_result = Some ''image''
                        then item\<lparr>image_url := url upload_result,
                                  media_type := Some ''image''\<rparr>
                        else if resource_type upload_result = Some ''video''
                        then item\<lparr>video_url := url upload_result,
                                  media_type := Some ''video''\<rparr>
                        else item);
                     w2 = w1\<lparr>table := session_commit i item1 (table w1)\<rparr>
                 in (session_refresh item1 (table w2), w2)))"

text \<open>
  \<^verbatim>\<open>update_item(session, current_user, id, item_in)\<close>. The model \<^verbatim>\<open>ItemUpdate\<close> is not
  among the sources, so the effect of
  \<^verbatim>\<open>item.sqlmodel_update(item_in.model_dump(exclude_unset=True))\<close> on the item is the
  parameter \<open>item_in\<close>.
\<close>

definition update_item ::
  "User \<Rightarrow> uuid \<Rightarrow> (Item \<Rightarrow> Item) \<Rightarrow> 'fs world \<Rightarrow> (HTTPException + Item) \<times> 'fs world" where
  "update_item current_user i item_in w =
     (case session_get (table w) i of
        None \<Rightarrow> (Inl not_found, w)
      | Some item \<Rightarrow>
          if \<not> is_superuser current_user \<and> owner_id item \<noteq> id_User current_user
          then (Inl not_enough_permissions, w)
          else
            let item1 = item_in item;
                w1 = w\<lparr>table := session_commit i item1 (table w)\<rparr>
            in (session_refresh item1 (table w1), w1))"

text \<open>
  \<^verbatim>\<open>delete_item(session, current_user, id, media_service)\<close>. The two branches on the
  media URLs hold only \<^verbatim>\<open>pass\<close>: the media service is a parameter and is never called.
\<close>

definition delete_item ::
  "MediaService \<Rightarrow> 'fs collaborators \<Rightarrow> User \<Rightarrow> uuid \<Rightarrow> 'fs world \<Rightarrow>
     (HTTPException + (string \<times> string) list) \<times> 'fs world" where
  "delete_item media_service ext current_user i w =
     (case session_get (table w) i of
        None \<Rightarrow> (Inl not_found, w)
      | Some item \<Rightarrow>
          if \<not> is_superuser current_user \<and> owner_id item \<noteq> id_User current_user
          then (Inl not_enough_permissions, w)
          else
            let w1 = (if truthy_str (image_url item)
                         \<and> contains ''cloudinary'' (the (image_url item))
                      then w else w);
                w2 = (if truthy_str (video_url item)
                         \<and> contains ''cloudinary'' (the (video_url item))
                      then w1 else w1)
            in (Inr [(''message'', ''Item deleted successfully'')],
                w2\<lparr>table := session_delete item (table w2)\<rparr>))"

section \<open>The outcomes and the invariant the specification names\<close>

text \<open>
  A result raises a status when it is an exception with that status code. The
  specification's \<^verbatim>\<open>PayloadTooLarge\<close> is status 413; its \<^verbatim>\<open>UnsupportedMediaType\<close> is the
  400 of validation, \<open>unsupported_file_type\<close>.
\<close>

definition raises :: "HTTPException + 'a \<Rightarrow> int \<Rightarrow> bool" where
  "raises r code = (case r of Inl e \<Rightarrow> status_code e = code | Inr v \<Rightarrow> False)"

text \<open>
  The invariant of the specification's data model: the media type is image exactly when
  the image URL is set and the video URL is not, and it is video exactly when the video
  URL is set and the image URL is not.
\<close>

definition media_invariant :: "Item \<Rightarrow> bool" where
  "media_invariant item =
     ((media_type item = Some ''image'') = (image_url item \<noteq> None \<and> video_url item = None)
      \<and> (media_type item = Some ''video'') = (video_url item \<noteq> None \<and> image_url item = None))"

section \<open>Concrete collaborators and inputs\<close>

text \<open>
  A small world to run the model in: a disk that is a list of written files, a content
  sniffer that knows the JPEG and the WebM signature, pathlib's suffix rule for a plain
  file name, three users, two items and a few uploads.
\<close>

type_synonym demo_disk = "(string \<times> byte list) list"

definition demo_magic :: "byte list \<Rightarrow> string" where
  "demo_magic bs =
     (if take 3 bs = [0xFF, 0xD8, 0xFF] then ''image/jpeg''
      else if take 4 bs = [0x1A, 0x45, 0xDF, 0xA3] then ''video/webm''
      else if bs = [] then ''application/x-empty''
      else ''text/plain'')"

definition pathlib_suffix :: "string \<Rightarrow> string" where
  "pathlib_suffix p =
     (let name = rev (takeWhile (\<lambda>c. c \<noteq> CHR ''/'') (rev p));
          ext = rev (takeWhile (\<lambda>c. c \<noteq> CHR ''.'') (rev name))
      in if CHR ''.'' \<in> set name \<and> ext \<noteq> [] \<and> length ext + 1 < length name
         then CHR ''.'' # ext else [])"

definition local_ext :: "demo_disk collaborators" where
  "local_ext =
     \<lparr>magic_from_buffer = demo_magic,
      cloudinary_upload = (\<lambda>f folder. Inl ''Must supply cloud_name''),
      cloudinary_destroy = (\<lambda>pid. Inl ''Must supply cloud_name''),
      mkdir = (\<lambda>p d. (None, d)),
      write_file = (\<lambda>p bs d. (None, (p, bs) # d)),
      path_exists = (\<lambda>p d. Inr (map_of d p \<noteq> None)),
      unlink = (\<lambda>p d. (None, filter (\<lambda>e. fst e \<noteq> p) d)),
      path_suffix = pathlib_suffix,
      uuid4 = (\<lambda>n. ''uuid-'' @ str_nat n)\<rparr>"

text \<open>A cloud that stores the upload as a raw file.\<close>

definition raw_ext :: "demo_disk collaborators" where
  "raw_ext =
     local_ext\<lparr>cloudinary_upload :=
       (\<lambda>f folder.
          Inr \<lparr>strs = map_of [(''secure_url'', ''https://res.cloudinary.com/demo/raw/upload/items/a1''),
                              (''public_id'', ''items/a1''),
                              (''resource_type'', ''raw'')],
               ints = map_of [(''bytes'', int (length (content f)))]\<rparr>)\<rparr>"

definition local_service :: MediaService where
  "local_service = \<lparr>use_cloudinary = False, upload_dir = ''uploads''\<rparr>"

definition cloud_service :: MediaService where
  "cloud_service = \<lparr>use_cloudinary = True, upload_dir = []\<rparr>"

definition jpeg_bytes :: "byte list" where
  "jpeg_bytes = [0xFF, 0xD8, 0xFF, 0xE0, 0x00, 0x10, 0x4A, 0x46, 0x49, 0x46]"

definition text_bytes :: "byte list" where
  "text_bytes = [0x68, 0x65, 0x6C, 0x6C, 0x6F, 0x20, 0x77, 0x6F, 0x72, 0x6C, 0x64]"

text \<open>A 5 MiB JPEG, as its declared size says.\<close>

definition photo :: UploadFile where
  "photo = \<lparr>filename = Some ''photo.jpg'', content_type = Some ''image/jpeg'',
            size_file = Some (5 * 1024 * 1024),
            file_obj = \<lparr>content = jpeg_bytes, pos = 0\<rparr>\<rparr>"

text \<open>Plain text, renamed to \<^verbatim>\<open>photo.jpg\<close> and declared as a JPEG.\<close>

definition renamed_text :: UploadFile where
  "renamed_text = \<lparr>filename = Some ''photo.jpg'', content_type = Some ''image/jpeg'',
            size_file = Some 11,
            file_obj = \<lparr>content = text_bytes, pos = 0\<rparr>\<rparr>"

text \<open>The same text with a declared size of 15 MiB.\<close>

definition big_text :: UploadFile where
  "big_text = renamed_text\<lparr>size_file := Some (15 * 1024 * 1024)\<rparr>"

text \<open>A JPEG whose size was not declared.\<close>

definition unsized_photo :: UploadFile where
  "unsized_photo = photo\<lparr>size_file := None\<rparr>"

definition alice :: User where
  "alice = \<lparr>id_User = 1, is_superuser = False\<rparr>"

definition bob :: User where
  "bob = \<lparr>id_User = 2, is_superuser = False\<rparr>"

definition admin :: User where
  "admin = \<lparr>id_User = 9, is_superuser = True\<rparr>"

definition clip_item :: Item where
  "clip_item = \<lparr>id_Item = 7, owner_id = 1, title = ''clip'', description = None,
      media_type = Some ''video'', image_url = None,
      video_url = Some ''/uploads/items/old.mp4''\<rparr>"

definition note_item :: Item where
  "note_item = \<lparr>id_Item = 8, owner_id = 2, title = ''note'', description = Some ''to do'',
      media_type = None, image_url = None, video_url = None\<rparr>"

definition poster_item :: Item where
  "poster_item = \<lparr>id_Item = 9, owner_id = 1, title = ''poster'', description = None,
      media_type = Some ''image'',
      image_url = Some ''https://res.cloudinary.com/demo/image/upload/items/p1.jpg'',
      video_url = None\<rparr>"

definition world0 :: "demo_disk world" where
  "world0 = \<lparr>table = [clip_item, note_item, poster_item], disk = [], uuids = 0\<rparr>"

text \<open>What the local back end answers for the first upload of \<open>photo\<close>.\<close>

definition stored_photo :: upload_result where
  "stored_photo =
     \<lparr>url = Some ''/uploads/items/uuid-0.jpg'',
      public_id = Some ''uploads/items/uuid-0.jpg'',
      resource_type = Some ''image'',
      format = Some ''jpg'',
      width = None, height = None,
      bytes = Some 10\<rparr>"

text \<open>What the raw-file cloud answers for it.\<close>

definition raw_photo :: upload_result where
  "raw_photo =
     \<lparr>url = Some ''https://res.cloudinary.com/demo/raw/upload/items/a1'',
      public_id = Some ''items/a1'',
      resource_type = Some ''raw'',
      format = None,
      width = None, height = None,
      bytes = Some 10\<rparr>"

section \<open>The session: what a lookup sees after a write\<close>

lemma session_get_id: "session_get rows i = Some item \<Longrightarrow> id_Item item = i"
  by (auto simp: session_get_def find_Some_iff)

lemma session_get_commit:
  "session_get rows i = Some item \<Longrightarrow> id_Item item1 = i \<Longrightarrow>
     session_get (session_commit i item1 rows) i = Some item1"
  unfolding session_get_def session_commit_def
  by (induction rows) (auto split: if_splits)

lemma session_get_delete: "session_get (session_delete item rows) (id_Item item) = None"
  unfolding session_get_def session_delete_def
  by (induction rows) auto

lemma session_refresh_commit:
  "session_get rows i = Some item \<Longrightarrow> id_Item item1 = i \<Longrightarrow>
     session_refresh item1 (session_commit i item1 rows) = Inr item1"
  by (simp add: session_refresh_def session_get_commit)

lemma session_refresh_not_forbidden:
  "session_refresh item rows \<noteq> Inl not_enough_permissions"
  by (simp add: session_refresh_def not_enough_permissions_def split: option.split)

section \<open>Access to a single item\<close>

text \<open>
  C2. Once the item is found, read, update and delete go through exactly when the
  requester is a superuser or owns the item: read returns the item, delete answers with
  its message, and update does not raise the permission error (it returns the updated
  item when the update leaves the primary key alone). Otherwise each of the three
  raises \<^verbatim>\<open>HTTPException(400, "Not enough permissions")\<close> and leaves the state as it was.
\<close>

theorem per_item_access_policy:
  assumes "session_get (table w) i = Some item"
  shows "if is_superuser r \<or> id_User r = owner_id item
         then read_item r i w = Inr item
            \<and> fst (update_item r i item_in w) \<noteq> Inl not_enough_permissions
            \<and> (id_Item (item_in item) = i \<longrightarrow>
                 fst (update_item r i item_in w) = Inr (item_in item))
            \<and> fst (delete_item media_service ext r i w)
                = Inr [(''message'', ''Item deleted successfully'')]
         else read_item r i w = Inl not_enough_permissions
            \<and> update_item r i item_in w = (Inl not_enough_permissions, w)
            \<and> delete_item media_service ext r i w = (Inl not_enough_permissions, w)"
proof (cases "is_superuser r \<or> id_User r = owner_id item")
  case True
  then have allowed: "\<not> (\<not> is_superuser r \<and> owner_id item \<noteq> id_User r)"
    by auto
  have "read_item r i w = Inr item"
    using assms allowed by (simp add: read_item_def)
  moreover have "fst (update_item r i item_in w) \<noteq> Inl not_enough_permissions"
    using assms allowed
    by (simp add: update_item_def Let_def session_refresh_not_forbidden)
  moreover have "id_Item (item_in item) = i \<longrightarrow>
      fst (update_item r i item_in w) = Inr (item_in item)"
    using assms allowed
    by (auto simp: update_item_def Let_def session_refresh_commit)
  moreover have "fst (delete_item media_service ext r i w)
      = Inr [(''message'', ''Item deleted successfully'')]"
    using assms allowed by (simp add: delete_item_def Let_def)
  ultimately show ?thesis using True by simp
next
  case False
  then have denied: "\<not> is_superuser r \<and> owner_id item \<noteq> id_User r"
    by auto
  show ?thesis
    using assms denied False
    by (simp add: read_item_def update_item_def delete_item_def)
qed

text \<open>
  The owner reads and deletes her item; another plain user is refused; a superuser who
  does not own it is let through.
\<close>

theorem per_item_access_policy_witness:
  "session_get (table world0) 7 = Some clip_item
   \<and> read_item alice 7 world0 = Inr clip_item
   \<and> fst (delete_item local_service local_ext alice 7 world0)
       = Inr [(''message'', ''Item deleted successfully'')]
   \<and> read_item bob 7 world0 = Inl not_enough_permissions
   \<and> delete_item local_service local_ext bob 7 world0 = (Inl not_enough_permissions, world0)
   \<and> read_item admin 7 world0 = Inr clip_item"
proof -
  have found: "session_get (table world0) 7 = Some clip_item"
    by code_simp
  have owner: "(is_superuser alice \<or> id_User alice = owner_id clip_item) = True"
    by code_simp
  have other: "(is_superuser bob \<or> id_User bob = owner_id clip_item) = False"
    by code_simp
  have super: "(is_superuser admin \<or> id_User admin = owner_id clip_item) = True"
    by code_simp
  note a = per_item_access_policy [OF found, of alice id local_service local_ext]
  note b = per_item_access_policy [OF found, of bob id local_service local_ext]
  note c = per_item_access_policy [OF found, of admin id local_service local_ext]
  show ?thesis
    using found a b c unfolding owner other super if_True if_False by blast
qed

section \<open>Listing\<close>

text \<open>
  C3. For a superuser the listing is scoped to the whole table, for any other
  requester to the rows whose owner is the requester. The returned page is the slice
  of the scoped rows from \<^verbatim>\<open>skip\<close>, at most \<^verbatim>\<open>limit\<close> long, so every returned item
  belongs to the scope, and the returned count is the number of scoped rows, whatever
  the offset and the limit are. A page from offset 0 whose limit is not below the count
  is the whole scope.
\<close>

theorem read_items_scope_and_count:
  assumes "0 \<le> skip" and "0 \<le> lim"
  shows "let scoped = (if is_superuser u then table w
                       else filter (\<lambda>r. owner_id r = id_User u) (table w));
             page = read_items u skip lim w
         in data page = take (nat lim) (drop (nat skip) scoped)
          \<and> count page = int (length scoped)
          \<and> set (data page) \<subseteq> set scoped
          \<and> (skip = 0 \<and> count page \<le> lim \<longrightarrow> data page = scoped)"
proof -
  define scoped where "scoped = (if is_superuser u then table w
                       else filter (\<lambda>r. owner_id r = id_User u) (table w))"
  have d: "data (read_items u skip lim w) = take (nat lim) (drop (nat skip) scoped)"
    by (simp add: read_items_def scoped_def exec_all_def select_from_Item_def
        where_owner_id_def offset_stmt_def limit_stmt_def Let_def)
  have c: "count (read_items u skip lim w) = int (length scoped)"
    by (simp add: read_items_def scoped_def exec_all_def exec_count_def select_from_Item_def
        where_owner_id_def Let_def)
  have s: "set (data (read_items u skip lim w)) \<subseteq> set scoped"
    unfolding d by (meson set_take_subset set_drop_subset subset_trans)
  have a: "skip = 0 \<and> count (read_items u skip lim w) \<le> lim
      \<longrightarrow> data (read_items u skip lim w) = scoped"
    unfolding d c by auto
  show ?thesis
    unfolding Let_def scoped_def [symmetric] using d c s a by blast
qed

text \<open>
  Bob lists his one item out of three, and the second page of size 1 is empty while
  the count stays 1; the superuser lists all three.
\<close>

theorem read_items_scope_and_count_witness:
  "(0::int) \<le> 1 \<and> (0::int) \<le> 1
   \<and> data (read_items bob 1 1 world0) = []
   \<and> count (read_items bob 1 1 world0) = 1
   \<and> data (read_items bob 0 100 world0) = [note_item]
   \<and> data (read_items admin 0 100 world0) = [clip_item, note_item, poster_item]
   \<and> count (read_items admin 0 100 world0) = 3"
proof -
  have h0: "(0::int) \<le> 0" and h1: "(0::int) \<le> 1" and h100: "(0::int) \<le> 100"
    by simp_all
  have plain: "is_superuser bob = False" and super: "is_superuser admin = True"
    by code_simp+
  have mine: "filter (\<lambda>r. owner_id r = id_User bob) (table world0) = [note_item]"
    by code_simp
  have every: "table world0 = [clip_item, note_item, poster_item]"
    by code_simp
  note p2 = read_items_scope_and_count [OF h1 h1, of bob world0,
      unfolded Let_def plain if_False mine]
  note p1 = read_items_scope_and_count [OF h0 h100, of bob world0,
      unfolded Let_def plain if_False mine]
  note pa = read_items_scope_and_count [OF h0 h100, of admin world0,
      unfolded Let_def super if_True every]
  show ?thesis
    using p2 p1 pa by simp
qed

section \<open>Validation of an upload\<close>

lemma status_file_too_large [simp]: "status_code (file_too_large mb) = 413"
  by (simp add: file_too_large_def)

lemma status_unsupported_file_type [simp]: "status_code (unsupported_file_type m) = 400"
  by (simp add: unsupported_file_type_def)

lemma unsupported_neq_too_large [simp]: "unsupported_file_type m \<noteq> file_too_large mb"
  by (simp add: unsupported_file_type_def file_too_large_def)

lemma read_n_chunk: "fst (read_n n s) = take n (drop (pos s) (content s))"
  by (simp add: read_n_def Let_def)

lemma seek_read_n: "seek 0 (snd (read_n n s)) = s\<lparr>pos := 0\<rparr>"
  by (simp add: read_n_def seek_def Let_def)

text \<open>Validation as a case distinction on its two tests.\<close>

lemma validate_file_cases:
  "validate_file ext f mb =
     (if truthy_int (size_file f) \<and> the (size_file f) > mb * 1024 * 1024
      then Inl (file_too_large mb)
      else if magic_from_buffer ext (take 2048 (drop (pos (file_obj f)) (content (file_obj f))))
                \<notin> set (allowed_image_types @ allowed_video_types)
      then Inl (unsupported_file_type
                 (magic_from_buffer ext
                    (take 2048 (drop (pos (file_obj f)) (content (file_obj f))))))
      else Inr (f\<lparr>file_obj := (file_obj f)\<lparr>pos := 0\<rparr>\<rparr>))"
  by (simp add: validate_file_def Let_def split_beta read_n_chunk seek_read_n)

text \<open>
  C6. For a file with a declared size \<open>n\<close> and a limit of \<open>mb\<close> megabytes (not
  negative; the service always passes the default 10), validation raises the 413
  \<^verbatim>\<open>File too large\<close> exactly when \<open>n\<close> exceeds \<open>mb * 1024 * 1024\<close> bytes.
\<close>

theorem validate_file_size_limit:
  assumes "0 \<le> mb" and "size_file f = Some n"
  shows "(validate_file ext f mb = Inl (file_too_large mb)) = (mb * 1024 * 1024 < n)
       \<and> raises (validate_file ext f mb) 413 = (mb * 1024 * 1024 < n)"
  using assms
  by (auto simp: validate_file_cases raises_def truthy_int_def)

text \<open>
  A declared 15 MiB is rejected against the limit of 10 MiB, and a 5 MiB JPEG passes
  the size check.
\<close>

theorem validate_file_size_limit_witness:
  "(0::int) \<le> 10
   \<and> size_file big_text = Some 15728640
   \<and> validate_file local_ext big_text 10 = Inl (file_too_large 10)
   \<and> raises (validate_file local_ext big_text 10) 413
   \<and> size_file photo = Some 5242880
   \<and> \<not> raises (validate_file local_ext photo 10) 413"
proof -
  have lim: "(0::int) \<le> 10"
    by simp
  have big: "size_file big_text = Some 15728640"
    by code_simp
  have small: "size_file photo = Some 5242880"
    by code_simp
  note a = validate_file_size_limit [OF lim big, of local_ext, simplified]
  note b = validate_file_size_limit [OF lim small, of local_ext, simplified]
  show ?thesis
    using lim big small a b by blast
qed

text \<open>
  C9. A file whose declared size is absent or zero is never rejected as too large,
  whatever its content and whatever the limit: the outcome of validation does not
  depend on the limit at all.
\<close>

theorem validate_file_skips_size_check:
  assumes "size_file f = None \<or> size_file f = Some 0"
  shows "\<not> raises (validate_file ext f mb) 413
       \<and> validate_file ext f mb = validate_file ext f mb'"
  using assms
  by (auto simp: validate_file_cases raises_def truthy_int_def)

text \<open>
  An upload without a declared size passes even a limit of 0, and a declared size of 0
  passes a negative one.
\<close>

theorem validate_file_skips_size_check_witness:
  "size_file unsized_photo = None
   \<and> \<not> raises (validate_file local_ext unsized_photo 10) 413
   \<and> validate_file local_ext unsized_photo 10 = validate_file local_ext unsized_photo 0
   \<and> size_file (photo\<lparr>size_file := Some 0\<rparr>) = Some 0
   \<and> \<not> raises (validate_file local_ext (photo\<lparr>size_file := Some 0\<rparr>) (- 1)) 413"
proof -
  have absent: "size_file unsized_photo = None"
    by code_simp
  have zero: "size_file (photo\<lparr>size_file := Some 0\<rparr>) = Some 0"
    by simp
  note a = validate_file_skips_size_check [OF disjI1 [OF absent], of local_ext 10 0]
  note b = validate_file_skips_size_check [OF disjI2 [OF zero], of local_ext "- 1" 0]
  show ?thesis
    using absent zero a b by blast
qed

text \<open>
  C7, amended. For a file that validation does not reject as too large, the MIME type is
  the one sniffed from the (at most) 2048 bytes at the read position, validation raises
  the 400 \<^verbatim>\<open>Unsupported file type\<close> exactly when that type is outside the allowed set, and
  replacing the client-supplied file name and content type changes nothing in the
  outcome but those two fields of the validated file.
\<close>

theorem validate_file_sniffs_content:
  assumes "\<not> raises (validate_file ext f mb) 413"
  shows "let mime = magic_from_buffer ext
                      (take 2048 (drop (pos (file_obj f)) (content (file_obj f))))
         in (validate_file ext f mb = Inl (unsupported_file_type mime))
              = (mime \<notin> set (allowed_image_types @ allowed_video_types))
          \<and> raises (validate_file ext f mb) 400
              = (mime \<notin> set (allowed_image_types @ allowed_video_types))
          \<and> validate_file ext (f\<lparr>filename := name, content_type := ct\<rparr>) mb
              = map_sum id (\<lambda>g. g\<lparr>filename := name, content_type := ct\<rparr>)
                  (validate_file ext f mb)"
proof -
  have fits: "\<not> (truthy_int (size_file f) \<and> the (size_file f) > mb * 1024 * 1024)"
    using assms by (auto simp: validate_file_cases raises_def)
  have same: "\<not> (truthy_int (size_file (f\<lparr>filename := name, content_type := ct\<rparr>))
      \<and> the (size_file (f\<lparr>filename := name, content_type := ct\<rparr>)) > mb * 1024 * 1024)"
    using fits by simp
  show ?thesis
    unfolding Let_def validate_file_cases [of ext f] validate_file_cases [of ext "f\<lparr>filename := name, content_type := ct\<rparr>"]
      if_not_P [OF fits] if_not_P [OF same]
    by (simp add: raises_def)
qed

text \<open>Plain text named \<^verbatim>\<open>photo.jpg\<close> and declared as a JPEG is rejected with the 400.\<close>

theorem validate_file_sniffs_content_witness:
  "\<not> raises (validate_file local_ext renamed_text 10) 413
   \<and> filename renamed_text = Some ''photo.jpg''
   \<and> validate_file local_ext renamed_text 10 = Inl (unsupported_file_type ''text/plain'')
   \<and> raises (validate_file local_ext renamed_text 10) 400"
proof -
  have fits: "\<not> raises (validate_file local_ext renamed_text 10) 413"
    by code_simp
  have name: "filename renamed_text = Some ''photo.jpg''"
    by code_simp
  have mime: "magic_from_buffer local_ext
      (take 2048 (drop (pos (file_obj renamed_text)) (content (file_obj renamed_text))))
      = ''text/plain''"
    by code_simp
  have out: "(''text/plain'' \<notin> set (allowed_image_types @ allowed_video_types)) = True"
    by code_simp
  note a = validate_file_sniffs_content [OF fits, unfolded Let_def mime out]
  show ?thesis
    using fits name a by blast
qed

text \<open>
  As stated for every file, C7 fails: the same text with a declared size of 15 MiB has
  a sniffed type outside the allowed set, yet validation raises the 413 of the size
  check and not the 400; the content is not even read.
\<close>

theorem validate_file_unsupported_counterexample:
  "magic_from_buffer local_ext
      (take 2048 (drop (pos (file_obj big_text)) (content (file_obj big_text))))
     \<notin> set (allowed_image_types @ allowed_video_types)
   \<and> validate_file local_ext big_text 10 = Inl (file_too_large 10)
   \<and> \<not> raises (validate_file local_ext big_text 10) 400"
  by code_simp

section \<open>Uploading\<close>

text \<open>
  An upload changes the disk and the uuid supply and runs the same whatever the item
  table holds; the table comes out as it went in.
\<close>

lemma upload_to_local_frame:
  "upload_to_local self ext f folder (w\<lparr>table := t\<rparr>)
     = (fst (upload_to_local self ext f folder w),
        (snd (upload_to_local self ext f folder w))\<lparr>table := t\<rparr>)"
  by (simp add: upload_to_local_def Let_def split_beta split: prod.split option.split)

lemma upload_to_local_table:
  "table (snd (upload_to_local self ext f folder w)) = table w"
  by (simp add: upload_to_local_def Let_def split_beta split: prod.split option.split)

lemma upload_file_frame:
  "upload_file self ext f folder (w\<lparr>table := t\<rparr>)
     = (fst (upload_file self ext f folder w),
        (snd (upload_file self ext f folder w))\<lparr>table := t\<rparr>)"
  by (simp add: upload_file_def upload_to_local_frame split: sum.split)

lemma upload_file_table:
  "table (snd (upload_file self ext f folder w)) = table w"
  by (simp add: upload_file_def upload_to_local_table split: sum.split)

text \<open>
  A file that passes validation comes out rewound, and one that does not ends the
  standalone upload with the exception of validation and the state as it was.
\<close>

lemma validate_file_Inr:
  "validate_file ext f mb = Inr f' \<Longrightarrow> f' = f\<lparr>file_obj := (file_obj f)\<lparr>pos := 0\<rparr>\<rparr>"
  by (simp add: validate_file_cases split: if_splits)

lemma upload_media_invalid:
  "validate_file ext f 10 = Inl e \<Longrightarrow> upload_media media_service ext f w = (Inl e, w)"
  by (simp add: upload_media_def upload_file_def)

text \<open>
  C10. The standalone upload route takes no requester and no session. For a file that
  passes validation it hands the rewound file to the back end the service was
  configured with: the cloud client's answer is returned field by field (its exception
  as a 500), and the local back end, when the folder can be made and the file written,
  stores the whole content under a fresh name and answers with its URL, path, type and
  length. Whatever the item table holds (also when it is empty), the outcome and the
  effect on the rest of the state are the same, and the table is returned unchanged.
\<close>

theorem upload_media_touches_no_item:
  assumes "validate_file ext f 10 = Inr f'"
  shows "table (snd (upload_media media_service ext f w)) = table w
   \<and> upload_media media_service ext f (w\<lparr>table := t\<rparr>)
       = (fst (upload_media media_service ext f w),
          (snd (upload_media media_service ext f w))\<lparr>table := t\<rparr>)
   \<and> upload_media media_service ext f w
       = (if use_cloudinary media_service
          then (upload_to_cloudinary ext (f\<lparr>file_obj := (file_obj f)\<lparr>pos := 0\<rparr>\<rparr>) ''items'', w)
          else upload_to_local media_service ext
                 (f\<lparr>file_obj := (file_obj f)\<lparr>pos := 0\<rparr>\<rparr>) ''items'' w)
   \<and> (use_cloudinary media_service
        \<and> cloudinary_upload ext ((file_obj f)\<lparr>pos := 0\<rparr>) ''items'' = Inr resp
       \<longrightarrow> upload_media media_service ext f w
            = (Inr \<lparr>url = strs resp ''secure_url'',
                    public_id = strs resp ''public_id'',
                    resource_type = strs resp ''resource_type'',
                    format = strs resp ''format'',
                    width = ints resp ''width'',
                    height = ints resp ''height'',
                    bytes = ints resp ''bytes''\<rparr>, w))
   \<and> (use_cloudinary media_service
        \<and> cloudinary_upload ext ((file_obj f)\<lparr>pos := 0\<rparr>) ''items'' = Inl msg
       \<longrightarrow> upload_media media_service ext f w
            = (Inl (HTTPException 500 (''Cloudinary upload failed: '' @ msg)), w))
   \<and> (let folder_path = path_join (upload_dir media_service) ''items'';
           file_extension = (if truthy_str (filename f)
                             then path_suffix ext (the (filename f)) else []);
           unique_filename = uuid4 ext (uuids w) @ file_extension;
           file_path = path_join folder_path unique_filename
       in \<not> use_cloudinary media_service
          \<and> mkdir ext folder_path (disk w) = (None, d1)
          \<and> write_file ext file_path (content (file_obj f)) d1 = (None, d2)
         \<longrightarrow> upload_media media_service ext f w
              = (Inr \<lparr>url = Some (''/uploads/items/'' @ unique_filename),
                      public_id = Some file_path,
                      resource_type =
                        Some (if truthy_str (content_type f)
                                 \<and> startswith (the (content_type f)) ''image/''
                              then ''image'' else ''video''),
                      format =
                        Some (if file_extension \<noteq> [] then lstrip_dot file_extension
                              else ''unknown''),
                      width = None,
                      height = None,
                      bytes = Some (int (length (content (file_obj f))))\<rparr>,
                 w\<lparr>disk := d2, uuids := Suc (uuids w)\<rparr>))"
proof -
  define g where "g = f\<lparr>file_obj := (file_obj f)\<lparr>pos := 0\<rparr>\<rparr>"
  have valid: "validate_file ext f 10 = Inr g"
    using assms validate_file_Inr [OF assms] by (simp add: g_def)
  have run: "upload_media media_service ext f w
      = (if use_cloudinary media_service then (upload_to_cloudinary ext g ''items'', w)
         else upload_to_local media_service ext g ''items'' w)"
    by (simp add: upload_media_def upload_file_def valid)
  have kept: "table (snd (upload_media media_service ext f w)) = table w"
    unfolding upload_media_def by (rule upload_file_table)
  have framed: "upload_media media_service ext f (w\<lparr>table := t\<rparr>)
       = (fst (upload_media media_service ext f w),
          (snd (upload_media media_service ext f w))\<lparr>table := t\<rparr>)"
    unfolding upload_media_def by (rule upload_file_frame)
  have cloud_ok: "use_cloudinary media_service
        \<and> cloudinary_upload ext ((file_obj f)\<lparr>pos := 0\<rparr>) ''items'' = Inr resp
       \<longrightarrow> upload_media media_service ext f w
            = (Inr \<lparr>url = strs resp ''secure_url'',
                    public_id = strs resp ''public_id'',
                    resource_type = strs resp ''resource_type'',
                    format = strs resp ''format'',
                    width = ints resp ''width'',
                    height = ints resp ''height'',
                    bytes = ints resp ''bytes''\<rparr>, w)"
    by (simp add: run upload_to_cloudinary_def g_def)
  have cloud_bad: "use_cloudinary media_service
        \<and> cloudinary_upload ext ((file_obj f)\<lparr>pos := 0\<rparr>) ''items'' = Inl msg
       \<longrightarrow> upload_media media_service ext f w
            = (Inl (HTTPException 500 (''Cloudinary upload failed: '' @ msg)), w)"
    by (simp add: run upload_to_cloudinary_def g_def)
  have rest: "fst (read_all (file_obj g)) = content (file_obj f)"
    by (simp add: read_all_def g_def Let_def)
  have local_ok: "let folder_path = path_join (upload_dir media_service) ''items'';
           file_extension = (if truthy_str (filename f)
                             then path_suffix ext (the (filename f)) else []);
           unique_filename = uuid4 ext (uuids w) @ file_extension;
           file_path = path_join folder_path unique_filename
       in \<not> use_cloudinary media_service
          \<and> mkdir ext folder_path (disk w) = (None, d1)
          \<and> write_file ext file_path (content (file_obj f)) d1 = (None, d2)
         \<longrightarrow> upload_media media_service ext f w
              = (Inr \<lparr>url = Some (''/uploads/items/'' @ unique_filename),
                      public_id = Some file_path,
                      resource_type =
                        Some (if truthy_str (content_type f)
                                 \<and> startswith (the (content_type f)) ''image/''
                              then ''image'' else ''video''),
                      format =
                        Some (if file_extension \<noteq> [] then lstrip_dot file_extension
                              else ''unknown''),
                      width = None,
                      height = None,
                      bytes = Some (int (length (content (file_obj f))))\<rparr>,
                 w\<lparr>disk := d2, uuids := Suc (uuids w)\<rparr>)"
    using rest
    by (simp add: run upload_to_local_def Let_def split_beta g_def)
  show ?thesis
    using kept framed run [unfolded g_def] cloud_ok cloud_bad local_ok by blast
qed

text \<open>
  The photo is valid; the local back end stores its ten bytes under the first fresh
  name and answers with \<open>stored_photo\<close>, also when no item exists.
\<close>

theorem upload_media_touches_no_item_witness:
  "validate_file local_ext photo 10 = Inr photo
   \<and> upload_media local_service local_ext photo world0
       = (Inr stored_photo,
          world0\<lparr>disk := [(''uploads/items/uuid-0.jpg'', jpeg_bytes)], uuids := Suc 0\<rparr>)
   \<and> fst (upload_media local_service local_ext photo (world0\<lparr>table := []\<rparr>))
       = Inr stored_photo
   \<and> table (snd (upload_media local_service local_ext photo world0)) = table world0"
proof -
  have valid: "validate_file local_ext photo 10 = Inr photo"
    by code_simp
  have backend: "\<not> use_cloudinary local_service"
    by code_simp
  have name: "uuid4 local_ext (uuids world0) @
      (if truthy_str (filename photo) then path_suffix local_ext (the (filename photo))
       else []) = ''uuid-0.jpg''"
    by code_simp
  have suffix: "(if truthy_str (filename photo)
      then path_suffix local_ext (the (filename photo)) else []) = ''.jpg''"
    by code_simp
  have folder: "path_join (upload_dir local_service) ''items'' = ''uploads/items''"
    by code_simp
  have path: "path_join ''uploads/items'' ''uuid-0.jpg'' = ''uploads/items/uuid-0.jpg''"
    by code_simp
  have made: "mkdir local_ext ''uploads/items'' (disk world0) = (None, [])"
    by code_simp
  have written: "write_file local_ext ''uploads/items/uuid-0.jpg'' (content (file_obj photo)) []
      = (None, [(''uploads/items/uuid-0.jpg'', jpeg_bytes)])"
    by code_simp
  have answer: "\<lparr>url = Some (''/uploads/items/'' @ ''uuid-0.jpg''),
        public_id = Some ''uploads/items/uuid-0.jpg'',
        resource_type = Some (if truthy_str (content_type photo)
                                 \<and> startswith (the (content_type photo)) ''image/''
                              then ''image'' else ''video''),
        format = Some (if ''.jpg'' \<noteq> [] then lstrip_dot ''.jpg'' else ''unknown''),
        width = None, height = None,
        bytes = Some (int (length (content (file_obj photo))))\<rparr> = stored_photo"
    by code_simp
  have drawn: "Suc (uuids world0) = Suc 0"
    by code_simp
  note a = upload_media_touches_no_item [OF valid, of local_service world0 "[]" _ _ "[]"
      "[(''uploads/items/uuid-0.jpg'', jpeg_bytes)]"]
  note kept = a [THEN conjunct1]
  note framed = a [THEN conjunct2, THEN conjunct1]
  note loc = a [THEN conjunct2, THEN conjunct2, THEN conjunct2, THEN conjunct2, THEN conjunct2,
      unfolded Let_def name, unfolded suffix folder, unfolded path answer drawn]
  have run: "upload_media local_service local_ext photo world0
       = (Inr stored_photo,
          world0\<lparr>disk := [(''uploads/items/uuid-0.jpg'', jpeg_bytes)], uuids := Suc 0\<rparr>)"
    using loc backend made written by blast
  have empty: "fst (upload_media local_service local_ext photo (world0\<lparr>table := []\<rparr>))
       = Inr stored_photo"
    unfolding framed run by simp
  show ?thesis
    using valid run empty kept by blast
qed

text \<open>
  C5. When the upload step of an add-media request fails, with a validation error or
  with the 500 of a back end, the request ends in an exception and the item table is
  what it was before: nothing is committed. For an item that is found and a requester
  who may write it, the exception is the upload's own.
\<close>

theorem failed_upload_writes_nothing:
  assumes "fst (upload_file media_service ext f ''items'' w) = Inl e"
  shows "table (snd (add_media_to_item media_service ext u i f w)) = table w
       \<and> isl (fst (add_media_to_item media_service ext u i f w))
       \<and> (session_get (table w) i = Some item
            \<and> (is_superuser u \<or> owner_id item = id_User u)
          \<longrightarrow> fst (add_media_to_item media_service ext u i f w) = Inl e)"
proof -
  obtain w1 where up: "upload_file media_service ext f ''items'' w = (Inl e, w1)"
    using assms by (cases "upload_file media_service ext f ''items'' w") simp
  have t1: "table w1 = table w"
    using upload_file_table [of media_service ext f "''items''" w] up by simp
  show ?thesis
    using up t1
    by (auto simp: add_media_to_item_def split: option.split)
qed

text \<open>
  With a cloud client that raises, the owner's request fails with the 500 of the upload
  and the table is untouched.
\<close>

theorem failed_upload_writes_nothing_witness:
  "fst (upload_file cloud_service local_ext photo ''items'' world0)
       = Inl (HTTPException 500 ''Cloudinary upload failed: Must supply cloud_name'')
   \<and> fst (add_media_to_item cloud_service local_ext alice 7 photo world0)
       = Inl (HTTPException 500 ''Cloudinary upload failed: Must supply cloud_name'')
   \<and> table (snd (add_media_to_item cloud_service local_ext alice 7 photo world0))
       = table world0"
proof -
  have fails: "fst (upload_file cloud_service local_ext photo ''items'' world0)
       = Inl (HTTPException 500 ''Cloudinary upload failed: Must supply cloud_name'')"
    by code_simp
  have found: "session_get (table world0) 7 = Some clip_item"
    by code_simp
  have owner: "is_superuser alice \<or> owner_id clip_item = id_User alice"
    by code_simp
  note a = failed_upload_writes_nothing [OF fails, of alice 7 clip_item]
  show ?thesis
    using fails found owner a by blast
qed

section \<open>Attaching the uploaded media to the item\<close>

text \<open>
  What a request does once the item is found, the requester may write it and the upload
  has succeeded: the matching field is set, the row is committed and read back.
\<close>

lemma add_media_to_item_uploaded:
  assumes "session_get (table w) i = Some item"
    and "is_superuser u \<or> owner_id item = id_User u"
    and "upload_file media_service ext f ''items'' w = (Inr r, w1)"
    and "id_Item item1 = id_Item item"
    and "item1 = (if resource_type r = Some ''image''
                  then item\<lparr>image_url := url r, media_type := Some ''image''\<rparr>
                  else if resource_type r = Some ''video''
                  then item\<lparr>video_url := url r, media_type := Some ''video''\<rparr>
                  else item)"
  shows "add_media_to_item media_service ext u i f w
           = (Inr item1, w1\<lparr>table := session_commit i item1 (table w)\<rparr>)"
proof -
  have k: "id_Item item1 = i"
    using assms(1,4) by (simp add: session_get_id)
  have t1: "table w1 = table w"
    using upload_file_table [of media_service ext f "''items''" w] assms(3) by simp
  have reread: "session_refresh item1 (session_commit i item1 (table w)) = Inr item1"
    using assms(1) k by (rule session_refresh_commit)
  have allowed: "\<not> (\<not> is_superuser u \<and> owner_id item \<noteq> id_User u)"
    using assms(2) by auto
  show ?thesis
    unfolding add_media_to_item_def
    using assms(1,3) allowed reread t1 by (simp add: Let_def assms(5) [symmetric])
qed

text \<open>
  C1, amended. An image result sets \<^verbatim>\<open>media_type\<close> to image and \<^verbatim>\<open>image_url\<close> to the
  result's URL, in the returned item and in its row, and leaves \<^verbatim>\<open>video_url\<close> as it
  was; a video result does the same with the roles exchanged. The invariant of the data
  model holds afterwards when the result carries a URL and the other URL was unset
  before.
\<close>

theorem add_media_to_item_sets_matching_url:
  assumes "session_get (table w) i = Some item"
    and "is_superuser u \<or> owner_id item = id_User u"
    and "upload_file media_service ext f ''items'' w = (Inr r, w1)"
  shows "(resource_type r = Some ''image'' \<longrightarrow>
           (let item1 = item\<lparr>image_url := url r, media_type := Some ''image''\<rparr> in
              fst (add_media_to_item media_service ext u i f w) = Inr item1
            \<and> session_get (table (snd (add_media_to_item media_service ext u i f w))) i
                = Some item1
            \<and> video_url item1 = video_url item
            \<and> (url r \<noteq> None \<and> video_url item = None \<longrightarrow> media_invariant item1)))
       \<and> (resource_type r = Some ''video'' \<longrightarrow>
           (let item1 = item\<lparr>video_url := url r, media_type := Some ''video''\<rparr> in
              fst (add_media_to_item media_service ext u i f w) = Inr item1
            \<and> session_get (table (snd (add_media_to_item media_service ext u i f w))) i
                = Some item1
            \<and> image_url item1 = image_url item
            \<and> (url r \<noteq> None \<and> image_url item = None \<longrightarrow> media_invariant item1)))"
proof (intro conjI impI)
  assume img: "resource_type r = Some ''image''"
  define item1 where "item1 = item\<lparr>image_url := url r, media_type := Some ''image''\<rparr>"
  have run: "add_media_to_item media_service ext u i f w
      = (Inr item1, w1\<lparr>table := session_commit i item1 (table w)\<rparr>)"
    using assms by (rule add_media_to_item_uploaded) (simp_all add: item1_def img)
  have k: "id_Item item1 = i"
    using assms(1) by (simp add: item1_def session_get_id)
  have row: "session_get (session_commit i item1 (table w)) i = Some item1"
    using assms(1) k by (rule session_get_commit)
  show "let item1 = item\<lparr>image_url := url r, media_type := Some ''image''\<rparr> in
              fst (add_media_to_item media_service ext u i f w) = Inr item1
            \<and> session_get (table (snd (add_media_to_item media_service ext u i f w))) i
                = Some item1
            \<and> video_url item1 = video_url item
            \<and> (url r \<noteq> None \<and> video_url item = None \<longrightarrow> media_invariant item1)"
    unfolding Let_def item1_def [symmetric] run
    using row by (auto simp: item1_def media_invariant_def)
next
  assume vid: "resource_type r = Some ''video''"
  define item1 where "item1 = item\<lparr>video_url := url r, media_type := Some ''video''\<rparr>"
  have run: "add_media_to_item media_service ext u i f w
      = (Inr item1, w1\<lparr>table := session_commit i item1 (table w)\<rparr>)"
    using assms by (rule add_media_to_item_uploaded) (simp_all add: item1_def vid)
  have k: "id_Item item1 = i"
    using assms(1) by (simp add: item1_def session_get_id)
  have row: "session_get (session_commit i item1 (table w)) i = Some item1"
    using assms(1) k by (rule session_get_commit)
  show "let item1 = item\<lparr>video_url := url r, media_type := Some ''video''\<rparr> in
              fst (add_media_to_item media_service ext u i f w) = Inr item1
            \<and> session_get (table (snd (add_media_to_item media_service ext u i f w))) i
                = Some item1
            \<and> image_url item1 = image_url item
            \<and> (url r \<noteq> None \<and> image_url item = None \<longrightarrow> media_invariant item1)"
    unfolding Let_def item1_def [symmetric] run
    using row by (auto simp: item1_def media_invariant_def)
qed

text \<open>Bob attaches a photo to his note, which had no media: the invariant holds.\<close>

theorem add_media_to_item_sets_matching_url_witness:
  "session_get (table world0) 8 = Some note_item
   \<and> (is_superuser bob \<or> owner_id note_item = id_User bob)
   \<and> fst (upload_file local_service local_ext photo ''items'' world0) = Inr stored_photo
   \<and> fst (add_media_to_item local_service local_ext bob 8 photo world0)
       = Inr (note_item\<lparr>image_url := Some ''/uploads/items/uuid-0.jpg'',
                         media_type := Some ''image''\<rparr>)
   \<and> media_invariant (note_item\<lparr>image_url := Some ''/uploads/items/uuid-0.jpg'',
                                 media_type := Some ''image''\<rparr>)"
proof -
  have found: "session_get (table world0) 8 = Some note_item"
    by code_simp
  have owner: "is_superuser bob \<or> owner_id note_item = id_User bob"
    by code_simp
  have res: "fst (upload_file local_service local_ext photo ''items'' world0) = Inr stored_photo"
    by code_simp
  have up: "upload_file local_service local_ext photo ''items'' world0
      = (Inr stored_photo, snd (upload_file local_service local_ext photo ''items'' world0))"
    using res by (simp add: prod_eq_iff)
  have img: "resource_type stored_photo = Some ''image''"
    and link: "url stored_photo = Some ''/uploads/items/uuid-0.jpg''"
    and free: "video_url note_item = None"
    by code_simp+
  note a = add_media_to_item_sets_matching_url [OF found owner up, unfolded Let_def link]
  show ?thesis
    using found owner res a img free by simp
qed

text \<open>
  As stated, C1 fails: Alice's clip has a video URL, and after a photo is attached the
  item is an image that still carries that video URL, which breaks the invariant.
\<close>

theorem add_media_to_item_keeps_other_url_counterexample:
  "video_url clip_item = Some ''/uploads/items/old.mp4''
   \<and> map_sum id resource_type (fst (upload_file local_service local_ext photo ''items'' world0))
       = Inr (Some ''image'')
   \<and> fst (add_media_to_item local_service local_ext alice 7 photo world0)
       = Inr (clip_item\<lparr>image_url := Some ''/uploads/items/uuid-0.jpg'',
                         media_type := Some ''image''\<rparr>)
   \<and> video_url (clip_item\<lparr>image_url := Some ''/uploads/items/uuid-0.jpg'',
                            media_type := Some ''image''\<rparr>)
       = Some ''/uploads/items/old.mp4''
   \<and> \<not> media_invariant (clip_item\<lparr>image_url := Some ''/uploads/items/uuid-0.jpg'',
                                   media_type := Some ''image''\<rparr>)"
  by code_simp

text \<open>
  C4, amended. An upload result whose resource type is neither image nor video raises
  nothing: the item is committed and returned with its fields as they were.
\<close>

theorem add_media_to_item_ignores_other_types:
  assumes "session_get (table w) i = Some item"
    and "is_superuser u \<or> owner_id item = id_User u"
    and "upload_file media_service ext f ''items'' w = (Inr r, w1)"
    and "resource_type r \<noteq> Some ''image''"
    and "resource_type r \<noteq> Some ''video''"
  shows "fst (add_media_to_item media_service ext u i f w) = Inr item
       \<and> session_get (table (snd (add_media_to_item media_service ext u i f w))) i
           = Some item"
proof -
  have run: "add_media_to_item media_service ext u i f w
      = (Inr item, w1\<lparr>table := session_commit i item (table w)\<rparr>)"
    using assms(1-3) by (rule add_media_to_item_uploaded) (simp_all add: assms(4,5))
  have k: "id_Item item = i"
    using assms(1) by (rule session_get_id)
  have row: "session_get (session_commit i item (table w)) i = Some item"
    using assms(1) k by (rule session_get_commit)
  show ?thesis
    unfolding run using row by simp
qed

text \<open>A cloud that answers with the resource type \<^verbatim>\<open>raw\<close>: Bob gets his note back.\<close>

theorem add_media_to_item_ignores_other_types_witness:
  "session_get (table world0) 8 = Some note_item
   \<and> (is_superuser bob \<or> owner_id note_item = id_User bob)
   \<and> fst (upload_file cloud_service raw_ext photo ''items'' world0) = Inr raw_photo
   \<and> resource_type raw_photo \<noteq> Some ''image''
   \<and> resource_type raw_photo \<noteq> Some ''video''
   \<and> fst (add_media_to_item cloud_service raw_ext bob 8 photo world0) = Inr note_item"
proof -
  have found: "session_get (table world0) 8 = Some note_item"
    by code_simp
  have owner: "is_superuser bob \<or> owner_id note_item = id_User bob"
    by code_simp
  have res: "fst (upload_file cloud_service raw_ext photo ''items'' world0) = Inr raw_photo"
    by code_simp
  have up: "upload_file cloud_service raw_ext photo ''items'' world0
      = (Inr raw_photo, snd (upload_file cloud_service raw_ext photo ''items'' world0))"
    using res by (simp add: prod_eq_iff)
  have no_img: "resource_type raw_photo \<noteq> Some ''image''"
    and no_vid: "resource_type raw_photo \<noteq> Some ''video''"
    by code_simp+
  note a = add_media_to_item_ignores_other_types [OF found owner up no_img no_vid]
  show ?thesis
    using found owner res no_img no_vid a by blast
qed

text \<open>
  As stated, C4 fails: with the same cloud, Alice's request on her clip returns the
  clip unchanged instead of an exception.
\<close>

theorem add_media_to_item_raw_counterexample:
  "map_sum id resource_type (fst (upload_file cloud_service raw_ext photo ''items'' world0))
       = Inr (Some ''raw'')
   \<and> fst (add_media_to_item cloud_service raw_ext alice 7 photo world0) = Inr clip_item
   \<and> session_get (table (snd (add_media_to_item cloud_service raw_ext alice 7 photo world0))) 7
       = Some clip_item"
  by code_simp

section \<open>Deleting an item\<close>

text \<open>
  \<^verbatim>\<open>delete_file\<close> answers \<^verbatim>\<open>False\<close> when the cloud client raises; it never raises itself.
\<close>

lemma delete_file_swallows:
  "use_cloudinary self \<Longrightarrow> cloudinary_destroy ext pid = Inl e \<Longrightarrow>
     delete_file self ext pid w = (False, w)"
  by (simp add: delete_file_def)

text \<open>
  C8. For an item that is found and a requester who may delete it, the delete answers
  with its message and the item is gone from the table afterwards, for every media
  service and every behaviour of its collaborators, failing ones included: the route
  does not call the media service (its two branches on the media URLs are empty), so
  the disk is untouched as well.
\<close>

theorem delete_item_ignores_media_cleanup:
  assumes "session_get (table w) i = Some item"
    and "is_superuser u \<or> owner_id item = id_User u"
  shows "fst (delete_item media_service ext u i w)
           = Inr [(''message'', ''Item deleted successfully'')]
       \<and> session_get (table (snd (delete_item media_service ext u i w))) i = None
       \<and> disk (snd (delete_item media_service ext u i w)) = disk w"
proof -
  have k: "id_Item item = i"
    using assms(1) by (rule session_get_id)
  show ?thesis
    using assms session_get_delete [of item "table w"] unfolding k
    by (auto simp: delete_item_def Let_def)
qed

text \<open>
  The cloud client raises on every call, so cleaning up the poster's image fails; the
  owner's delete succeeds and the poster is gone.
\<close>

theorem delete_item_ignores_media_cleanup_witness:
  "session_get (table world0) 9 = Some poster_item
   \<and> (is_superuser alice \<or> owner_id poster_item = id_User alice)
   \<and> delete_file cloud_service local_ext ''items/p1'' world0 = (False, world0)
   \<and> fst (delete_item cloud_service local_ext alice 9 world0)
       = Inr [(''message'', ''Item deleted successfully'')]
   \<and> session_get (table (snd (delete_item cloud_service local_ext alice 9 world0))) 9 = None"
proof -
  have found: "session_get (table world0) 9 = Some poster_item"
    by code_simp
  have owner: "is_superuser alice \<or> owner_id poster_item = id_User alice"
    by code_simp
  have cleanup: "delete_file cloud_service local_ext ''items/p1'' world0 = (False, world0)"
    by code_simp
  note a = delete_item_ignores_media_cleanup [OF found owner, of cloud_service local_ext]
  show ?thesis
    using found owner cleanup a by blast
qed

end
